theory Spec2Isabelle
  imports Main
begin

section \<open>Python text primitives\<close>

text \<open>
  Text is modelled as \<^typ>\<open>string\<close>, one \<^typ>\<open>char\<close> per character of an ASCII
  line. The classes below are the ASCII part of Python's \<^verbatim>\<open>str.isspace\<close>,
  \<^verbatim>\<open>\d\<close>, \<^verbatim>\<open>\w\<close> and of \<^verbatim>\<open>str.upper\<close>/\<^verbatim>\<open>str.lower\<close>.
\<close>

definition isspace :: "char \<Rightarrow> bool" where
  "isspace c = (c \<in> set [CHR 0x09, CHR 0x0A, CHR 0x0B, CHR 0x0C, CHR 0x0D,
                          CHR 0x1C, CHR 0x1D, CHR 0x1E, CHR 0x1F, CHR 0x20])"

definition isdigit :: "char \<Rightarrow> bool" where
  "isdigit c = (c \<in> set ''0123456789'')"

definition isword :: "char \<Rightarrow> bool" where
  "isword c =
     (c \<in> set ''abcdefghijklmnopqrstuvwxyzABCDEFGHIJKLMNOPQRSTUVWXYZ0123456789_'')"

definition strip :: "string \<Rightarrow> string" where
  "strip s = rev (dropWhile isspace (rev (dropWhile isspace s)))"

definition upper_char :: "char \<Rightarrow> char" where
  "upper_char c =
     (case map_of (zip ''abcdefghijklmnopqrstuvwxyz'' ''ABCDEFGHIJKLMNOPQRSTUVWXYZ'') c of
        Some u \<Rightarrow> u | None \<Rightarrow> c)"


definition upper :: "string \<Rightarrow> string" where
  "upper s = map upper_char s"


text \<open>\<^verbatim>\<open>s.startswith(p)\<close> and the substring test \<^verbatim>\<open>sub in s\<close>.\<close>

fun startswith :: "string \<Rightarrow> string \<Rightarrow> bool" where
  "startswith s [] = True"
| "startswith [] (p # ps) = False"
| "startswith (c # cs) (p # ps) = (c = p \<and> startswith cs ps)"

fun contains :: "string \<Rightarrow> string \<Rightarrow> bool" where
  "contains [] sub = (sub = [])"
| "contains (c # cs) sub = (startswith (c # cs) sub \<or> contains cs sub)"

text \<open>\<^verbatim>\<open>s.split('\n')\<close>: always at least one piece.\<close>

fun split_nl :: "string \<Rightarrow> string list" where
  "split_nl [] = [[]]"
| "split_nl (c # cs) =
     (if c = CHR 0x0A then [] # split_nl cs
      else (case split_nl cs of [] \<Rightarrow> [[c]] | l # ls \<Rightarrow> (c # l) # ls))"

text \<open>\<^verbatim>\<open>int(s)\<close> on a string of decimal digits (the only strings it is applied to
  are the captures of \<^verbatim>\<open>\d+\<close> groups and of the \<^verbatim>\<open>strptime\<close> fields).\<close>

definition digit_val :: "char \<Rightarrow> nat" where
  "digit_val c =
     (case map_of (zip ''0123456789'' [0, 1, 2, 3, 4, 5, 6, 7, 8, 9]) c of
        Some d \<Rightarrow> d | None \<Rightarrow> 0)"

definition int_of_digits :: "string \<Rightarrow> nat" where
  "int_of_digits s = foldl (\<lambda>a c. 10 * a + digit_val c) 0 s"

section \<open>Regular expressions with backtracking\<close>

text \<open>
  The patterns of the source are values of \<open>regex\<close>; \<open>rmatch\<close> is a backtracking
  matcher in continuation style that explores the alternatives in the order of
  Python's \<^verbatim>\<open>re\<close>: a greedy repetition tries one more iteration before it
  tries to stop, a lazy one the other way round, an alternation its left branch
  first. The first complete match found is the match \<^verbatim>\<open>re\<close> reports.
  A capture list maps group names to the text each group matched.
\<close>

datatype cclass = Digit | Word | Space | Dot | Lit char | NotLit char | OneOf string

fun in_class :: "cclass \<Rightarrow> char \<Rightarrow> bool" where
  "in_class Digit c = isdigit c"
| "in_class Word c = isword c"
| "in_class Space c = isspace c"
| "in_class Dot c = (c \<noteq> CHR 0x0A)"
| "in_class (Lit x) c = (c = x)"
| "in_class (NotLit x) c = (c \<noteq> x)"
| "in_class (OneOf xs) c = (c \<in> set xs)"

datatype regex =
    Eps
  | Atom cclass
  | Seq regex regex
  | Alt regex regex
  | Star regex
  | Lazy regex
  | Plus regex
  | Rep nat regex
  | Group string regex

type_synonym caps = "(string \<times> string) list"
type_synonym mresult = "(string \<times> caps) option"
type_synonym cont = "string \<Rightarrow> caps \<Rightarrow> mresult"
type_synonym matcher = "string \<Rightarrow> caps \<Rightarrow> cont \<Rightarrow> mresult"

text \<open>Repetitions, bounded by the length of the input: every iteration must consume
  at least one character.\<close>

primrec star :: "matcher \<Rightarrow> nat \<Rightarrow> matcher" where
  "star f 0 s c k = k s c"
| "star f (Suc n) s c k =
     (case f s c (\<lambda>s' c'. if length s' < length s then star f n s' c' k else None) of
        Some r \<Rightarrow> Some r
      | None \<Rightarrow> k s c)"

primrec lazy :: "matcher \<Rightarrow> nat \<Rightarrow> matcher" where
  "lazy f 0 s c k = k s c"
| "lazy f (Suc n) s c k =
     (case k s c of
        Some r \<Rightarrow> Some r
      | None \<Rightarrow> f s c (\<lambda>s' c'. if length s' < length s then lazy f n s' c' k else None))"

primrec rep :: "matcher \<Rightarrow> nat \<Rightarrow> matcher" where
  "rep f 0 s c k = k s c"
| "rep f (Suc n) s c k = f s c (\<lambda>s' c'. rep f n s' c' k)"

primrec rmatch :: "regex \<Rightarrow> matcher" where
  "rmatch Eps s c k = k s c"
| "rmatch (Atom a) s c k =
     (case s of [] \<Rightarrow> None | x # xs \<Rightarrow> if in_class a x then k xs c else None)"
| "rmatch (Seq r1 r2) s c k = rmatch r1 s c (\<lambda>s' c'. rmatch r2 s' c' k)"
| "rmatch (Alt r1 r2) s c k =
     (case rmatch r1 s c k of Some r \<Rightarrow> Some r | None \<Rightarrow> rmatch r2 s c k)"
| "rmatch (Star r) s c k = star (rmatch r) (length s) s c k"
| "rmatch (Lazy r) s c k = lazy (rmatch r) (length s) s c k"
| "rmatch (Plus r) s c k =
     rmatch r s c (\<lambda>s' c'. star (rmatch r) (length s') s' c' k)"
| "rmatch (Rep n r) s c k = rep (rmatch r) n s c k"
| "rmatch (Group g r) s c k =
     rmatch r s c (\<lambda>s' c'. k s' ((g, take (length s - length s') s) # c'))"

text \<open>\<^verbatim>\<open>pattern.match(s)\<close>: anchored at the start, the rest of the input is
  returned with the captures. \<^verbatim>\<open>re.search(pattern, s)\<close>: the first start
  position, from the left, at which the pattern matches.\<close>

definition re_match :: "regex \<Rightarrow> string \<Rightarrow> mresult" where
  "re_match p s = rmatch p s [] (\<lambda>s' c'. Some (s', c'))"

fun re_search :: "regex \<Rightarrow> string \<Rightarrow> mresult" where
  "re_search p [] = re_match p []"
| "re_search p (x # xs) =
     (case re_match p (x # xs) of Some r \<Rightarrow> Some r | None \<Rightarrow> re_search p xs)"

text \<open>\<^verbatim>\<open>groups.get(name, default)\<close> on the captures of a match.\<close>

definition group_get :: "caps \<Rightarrow> string \<Rightarrow> string \<Rightarrow> string" where
  "group_get c name dflt = (case map_of c name of Some v \<Rightarrow> v | None \<Rightarrow> dflt)"

text \<open>Building blocks for writing a pattern down as it reads in the source.\<close>

definition seqs :: "regex list \<Rightarrow> regex" where
  "seqs rs = foldr Seq rs Eps"

definition lit :: "string \<Rightarrow> regex" where
  "lit s = seqs (map (\<lambda>c. Atom (Lit c)) s)"

definition alts :: "regex list \<Rightarrow> regex" where
  "alts rs = (case rs of [] \<Rightarrow> Eps | r # rs' \<Rightarrow> foldl Alt r rs')"

definition opt :: "regex \<Rightarrow> regex" where
  "opt r = Alt r Eps"

section \<open>Dates and times\<close>

text \<open>
  A naive \<^verbatim>\<open>datetime\<close>. The clock (\<^verbatim>\<open>datetime.now()\<close>) is an input of every
  function that reads it.
\<close>

record datetime =
  year :: nat
  month :: nat
  day :: nat
  hour :: nat
  minute :: nat
  second :: nat
  microsecond :: nat

definition digit_char :: "nat \<Rightarrow> char" where
  "digit_char n = ''0123456789'' ! (n mod 10)"

primrec zpad :: "nat \<Rightarrow> nat \<Rightarrow> string" where
  "zpad 0 n = []"
| "zpad (Suc w) n = zpad w (n div 10) @ [digit_char n]"

text \<open>\<^verbatim>\<open>dt.isoformat()\<close>: the fraction is printed only when it is not zero.\<close>

definition isoformat :: "datetime \<Rightarrow> string" where
  "isoformat dt =
     zpad 4 (year dt) @ ''-'' @ zpad 2 (month dt) @ ''-'' @ zpad 2 (day dt) @ ''T'' @
     zpad 2 (hour dt) @ '':'' @ zpad 2 (minute dt) @ '':'' @ zpad 2 (second dt) @
     (if microsecond dt \<noteq> 0 then ''.'' @ zpad 6 (microsecond dt) else [])"

text \<open>\<^verbatim>\<open>dt.strftime('%Y-%m-%d %H:%M:%S')\<close> (years of four digits).\<close>

definition strftime :: "datetime \<Rightarrow> string" where
  "strftime dt =
     zpad 4 (year dt) @ ''-'' @ zpad 2 (month dt) @ ''-'' @ zpad 2 (day dt) @ '' '' @
     zpad 2 (hour dt) @ '':'' @ zpad 2 (minute dt) @ '':'' @ zpad 2 (second dt)"

text \<open>
  \<^verbatim>\<open>datetime.strptime(s, fmt)\<close> for the three formats the source uses. The library
  turns the format into a regular expression, one group per directive, matches it
  at the start of \<open>s\<close>, and raises \<^verbatim>\<open>ValueError\<close> (here \<open>None\<close>) when it does not
  match, when input is left over, or when the fields are not a valid date and time.
\<close>

datatype tsformat =
    Fmt_dot    \<comment> \<open>\<^verbatim>\<open>'%Y-%m-%d %H:%M:%S.%f'\<close>\<close>
  | Fmt_comma  \<comment> \<open>\<^verbatim>\<open>'%Y-%m-%d %H:%M:%S,%f'\<close>\<close>
  | Fmt_plain  \<comment> \<open>\<^verbatim>\<open>'%Y-%m-%d %H:%M:%S'\<close>\<close>

definition dir_Y :: regex where
  "dir_Y = Group ''Y'' (Rep 4 (Atom Digit))"

definition dir_m :: regex where
  "dir_m = Group ''m'' (alts [Seq (Atom (Lit CHR ''1'')) (Atom (OneOf ''012'')),
                              Seq (Atom (Lit CHR ''0'')) (Atom (OneOf ''123456789'')),
                              Atom (OneOf ''123456789'')])"

definition dir_d :: regex where
  "dir_d = Group ''d'' (alts [Seq (Atom (Lit CHR ''3'')) (Atom (OneOf ''01'')),
                              Seq (Atom (OneOf ''12'')) (Atom Digit),
                              Seq (Atom (Lit CHR ''0'')) (Atom (OneOf ''123456789'')),
                              Atom (OneOf ''123456789''),
                              Seq (Atom (Lit CHR '' '')) (Atom (OneOf ''123456789''))])"

definition dir_H :: regex where
  "dir_H = Group ''H'' (alts [Seq (Atom (Lit CHR ''2'')) (Atom (OneOf ''0123'')),
                              Seq (Atom (OneOf ''01'')) (Atom Digit),
                              Atom Digit])"

definition dir_M :: regex where
  "dir_M = Group ''M'' (alts [Seq (Atom (OneOf ''012345'')) (Atom Digit), Atom Digit])"

definition dir_S :: regex where
  "dir_S = Group ''S'' (alts [Seq (Atom (Lit CHR ''6'')) (Atom (OneOf ''01'')),
                              Seq (Atom (OneOf ''012345'')) (Atom Digit),
                              Atom Digit])"

definition dir_f :: regex where
  "dir_f = Group ''f'' (Seq (Atom (OneOf ''0123456789''))
             (opt (Seq (Atom (OneOf ''0123456789''))
             (opt (Seq (Atom (OneOf ''0123456789''))
             (opt (Seq (Atom (OneOf ''0123456789''))
             (opt (Seq (Atom (OneOf ''0123456789''))
             (opt (Atom (OneOf ''0123456789''))))))))))))"

definition format_regex :: "tsformat \<Rightarrow> regex" where
  "format_regex fmt =
     (let base = [dir_Y, lit ''-'', dir_m, lit ''-'', dir_d, Plus (Atom Space),
                  dir_H, lit '':'', dir_M, lit '':'', dir_S]
      in case fmt of
           Fmt_dot \<Rightarrow> seqs (base @ [lit ''.'', dir_f])
         | Fmt_comma \<Rightarrow> seqs (base @ [lit '','', dir_f])
         | Fmt_plain \<Rightarrow> seqs base)"

definition is_leap :: "nat \<Rightarrow> bool" where
  "is_leap y = (y mod 4 = 0 \<and> (y mod 100 \<noteq> 0 \<or> y mod 400 = 0))"

definition days_in_month :: "nat \<Rightarrow> nat \<Rightarrow> nat" where
  "days_in_month y m =
     (if m = 2 then (if is_leap y then 29 else 28)
      else if m \<in> set [4, 6, 9, 11] then 30 else 31)"

definition strptime :: "string \<Rightarrow> tsformat \<Rightarrow> datetime option" where
  "strptime s fmt =
     (case re_match (format_regex fmt) s of
        None \<Rightarrow> None
      | Some (rest, g) \<Rightarrow>
          if rest \<noteq> [] then None
          else
            let y = int_of_digits (group_get g ''Y'' []);
                m = int_of_digits (dropWhile isspace (group_get g ''m'' []));
                d = int_of_digits (dropWhile isspace (group_get g ''d'' []));
                f = group_get g ''f'' [];
                us = int_of_digits (f @ replicate (6 - length f) CHR ''0'')
            in if y < 1 \<or> days_in_month y m < d
                  \<or> 59 < int_of_digits (group_get g ''S'' []) then None
               else Some \<lparr>year = y, month = m, day = d,
                          hour = int_of_digits (group_get g ''H'' []),
                          minute = int_of_digits (group_get g ''M'' []),
                          second = int_of_digits (group_get g ''S'' []),
                          microsecond = (if fmt = Fmt_plain then 0 else us)\<rparr>)"

section \<open>LogMonitor (web\_manager/backend/services/log\_monitor.py)\<close>

subsection \<open>The line parser\<close>

record log_entry =
  timestamp :: string
  level :: string
  logger_name :: string
  message :: string
  module :: string
  func :: string          \<comment> \<open>the key \<^verbatim>\<open>'function'\<close>\<close>
  line :: "int option"
  raw_line :: string
  pattern_type :: string

text \<open>The timestamp shapes of the patterns: \<^verbatim>\<open>\d{4}-\d{2}-\d{2} \d{2}:\d{2}:\d{2}\<close>,
  and the same followed by a separator and \<^verbatim>\<open>\d{3}\<close>.\<close>

definition ts_seconds :: regex where
  "ts_seconds =
     seqs [Rep 4 (Atom Digit), lit ''-'', Rep 2 (Atom Digit), lit ''-'', Rep 2 (Atom Digit),
           lit '' '', Rep 2 (Atom Digit), lit '':'', Rep 2 (Atom Digit), lit '':'',
           Rep 2 (Atom Digit)]"

definition ts_millis :: "char \<Rightarrow> regex" where
  "ts_millis sep = seqs [ts_seconds, Atom (Lit sep), Rep 3 (Atom Digit)]"

definition pattern_loguru :: regex where
  "pattern_loguru =
     seqs [Group ''timestamp'' (ts_millis CHR ''.''),
           Star (Atom Space), lit ''|'', Star (Atom Space),
           Group ''level'' (Plus (Atom Word)),
           Star (Atom Space), lit ''|'', Star (Atom Space),
           Group ''module'' (Plus (Atom Word)), lit '':'',
           Group ''function'' (Plus (Atom Word)), lit '':'',
           Group ''line'' (Plus (Atom Digit)),
           Star (Atom Space), lit ''-'', Star (Atom Space),
           Group ''message'' (Star (Atom Dot))]"

definition pattern_standard :: regex where
  "pattern_standard =
     seqs [Group ''timestamp'' (ts_millis CHR '',''),
           Star (Atom Space),
           Group ''level'' (Plus (Atom Word)),
           Star (Atom Space),
           Group ''logger'' (Plus (Atom Word)),
           Star (Atom Space),
           Group ''message'' (Star (Atom Dot))]"

definition pattern_simple :: regex where
  "pattern_simple =
     seqs [Group ''level'' (alts [lit ''INFO'', lit ''DEBUG'', lit ''WARNING'',
                                  lit ''ERROR'', lit ''CRITICAL'']),
           lit '':'', Star (Atom Space),
           Group ''message'' (Star (Atom Dot))]"

text \<open>\<^verbatim>\<open>self.log_patterns\<close>, in the insertion order of the dictionary, which is the
  order the loop of \<^verbatim>\<open>_parse_log_line\<close> tries them in.\<close>

definition log_patterns :: "(string \<times> regex) list" where
  "log_patterns =
     [(''loguru'', pattern_loguru), (''standard'', pattern_standard),
      (''simple'', pattern_simple)]"

fun try_formats :: "datetime \<Rightarrow> string \<Rightarrow> tsformat list \<Rightarrow> string" where
  "try_formats now s [] = isoformat now"
| "try_formats now s (fmt # fmts) =
     (case strptime s fmt of
        Some dt \<Rightarrow> isoformat dt
      | None \<Rightarrow> try_formats now s fmts)"

definition normalize_timestamp :: "datetime \<Rightarrow> string \<Rightarrow> string" where
  "normalize_timestamp now timestamp_str =
     (if timestamp_str = [] then isoformat now
      else try_formats now timestamp_str [Fmt_dot, Fmt_comma, Fmt_plain])"

definition entry_of_match :: "datetime \<Rightarrow> string \<Rightarrow> string \<Rightarrow> caps \<Rightarrow> log_entry" where
  "entry_of_match now ln pattern_name groups =
     \<lparr>timestamp = normalize_timestamp now (group_get groups ''timestamp'' []),
      level = group_get groups ''level'' ''INFO'',
      logger_name = group_get groups ''module'' (group_get groups ''logger'' ''main''),
      message = strip (group_get groups ''message'' []),
      module = group_get groups ''module'' [],
      func = group_get groups ''function'' [],
      line = (if group_get groups ''line'' [] \<noteq> []
              then Some (int (int_of_digits (group_get groups ''line'' []))) else None),
      raw_line = ln,
      pattern_type = pattern_name\<rparr>"

fun first_match :: "(string \<times> regex) list \<Rightarrow> string \<Rightarrow> (string \<times> caps) option" where
  "first_match [] s = None"
| "first_match ((pattern_name, pattern) # ps) s =
     (case re_match pattern s of
        Some (rest, groups) \<Rightarrow> Some (pattern_name, groups)
      | None \<Rightarrow> first_match ps s)"

definition LogMonitor_parse_log_line :: "datetime \<Rightarrow> string \<Rightarrow> log_entry option" where
  "LogMonitor_parse_log_line now ln =
     (case first_match log_patterns (strip ln) of
        Some (pattern_name, groups) \<Rightarrow> Some (entry_of_match now ln pattern_name groups)
      | None \<Rightarrow>
          Some \<lparr>timestamp = isoformat now, level = ''INFO'', logger_name = ''unknown'',
                message = strip ln, module = [], func = [], line = None,
                raw_line = ln, pattern_type = ''unknown''\<rparr>)"

text \<open>\<^verbatim>\<open>_parse_log_content\<close>: split the stripped content at newlines, skip the blank
  lines, keep every entry the line parser returns.\<close>

definition LogMonitor_parse_log_content :: "datetime \<Rightarrow> string \<Rightarrow> log_entry list" where
  "LogMonitor_parse_log_content now content =
     List.map_filter
       (\<lambda>ln. if strip ln = [] then None else LogMonitor_parse_log_line now ln)
       (split_nl (strip content))"

subsection \<open>The history buffer\<close>

text \<open>The Python slice \<^verbatim>\<open>xs[i:]\<close>: a negative \<open>i\<close> counts from the end, and both
  ends are clamped to the list.\<close>

definition slice_from :: "int \<Rightarrow> 'a list \<Rightarrow> 'a list" where
  "slice_from i xs =
     (if i < 0 then drop (nat (int (length xs) + i)) xs else drop (nat i) xs)"

text \<open>
  The state of a \<^verbatim>\<open>LogMonitor\<close>: the buffer, its capacity, and the byte offset
  \<^verbatim>\<open>last_position\<close> that \<^verbatim>\<open>_monitoring_loop\<close> carries from one iteration to the
  next. \<^verbatim>\<open>__init__\<close> sets the capacity to 1000.
\<close>

record log_monitor =
  log_buffer :: "log_entry list"
  max_buffer_size :: nat
  last_position :: nat

definition LogMonitor_init :: log_monitor where
  "LogMonitor_init = \<lparr>log_buffer = [], max_buffer_size = 1000, last_position = 0\<rparr>"

definition add_to_buffer :: "log_monitor \<Rightarrow> log_entry \<Rightarrow> log_monitor" where
  "add_to_buffer m entry =
     (let b = log_buffer m @ [entry]
      in if length b > max_buffer_size m
         then m\<lparr>log_buffer := slice_from (- int (max_buffer_size m)) b\<rparr>
         else m\<lparr>log_buffer := b\<rparr>)"


subsection \<open>Searching the buffer\<close>












subsection \<open>The tail loop\<close>

text \<open>
  One iteration of the \<^verbatim>\<open>while\<close> loop of \<^verbatim>\<open>_monitoring_loop\<close>. What the iteration
  observes is its input: the file (\<open>None\<close> when it does not exist, else its bytes at
  the time of the poll) and whether \<^verbatim>\<open>_read_new_content\<close> could open and read it
  (when it cannot, it logs the exception and returns the empty string). The result
  is the new state and the entries handed to the callback, in order. The file is
  ASCII text with \<^verbatim>\<open>\n\<close> line ends, so that a byte offset is a character offset.
\<close>

definition read_new_content :: "bool \<Rightarrow> string \<Rightarrow> nat \<Rightarrow> nat \<Rightarrow> string" where
  "read_new_content read_ok file start_pos end_pos =
     (if read_ok then take (end_pos - start_pos) (drop start_pos file) else [])"

definition monitoring_iteration ::
  "datetime \<Rightarrow> string option \<Rightarrow> bool \<Rightarrow> log_monitor \<Rightarrow> log_monitor \<times> log_entry list" where
  "monitoring_iteration now file read_ok m =
     (case file of
        None \<Rightarrow> (m, [])
      | Some content \<Rightarrow>
          let current_size = length content in
          if current_size > last_position m then
            let new_content = read_new_content read_ok content (last_position m) current_size;
                new_logs = (if new_content \<noteq> []
                            then LogMonitor_parse_log_content now new_content else [])
            in ((foldl add_to_buffer m new_logs)\<lparr>last_position := current_size\<rparr>, new_logs)
          else if current_size < last_position m then (m\<lparr>last_position := 0\<rparr>, [])
          else (m, []))"


section \<open>LogService (web\_frontend/services/log\_service.py)\<close>

record parsed_log =
  s_timestamp :: string
  s_level :: string
  s_module :: string
  s_line_num :: string
  s_message :: string
  s_raw_line :: string
  s_category :: string

text \<open>The three patterns of \<^verbatim>\<open>parse_log_line\<close>, in the order of the list; the groups
  are numbered as \<^verbatim>\<open>match.groups()\<close> lists them. Nothing in the body of the function
  raises past its inner handlers (the \<^verbatim>\<open>ValueError\<close> of \<^verbatim>\<open>strptime\<close> is caught where it
  arises), so the outer \<^verbatim>\<open>except\<close> branch has no counterpart here.\<close>

definition service_pattern_file :: regex where
  "service_pattern_file =
     seqs [Group ''1'' (ts_millis CHR ''.''), lit '' | '',
           Group ''2'' (Plus (Atom Word)), Plus (Atom Space), lit ''| '',
           Group ''3'' (Plus (Atom (NotLit CHR '':''))), lit '':'',
           Group ''4'' (Plus (Atom Digit)), lit '' - '',
           Group ''5'' (Plus (Atom Dot))]"

definition service_pattern_colour :: regex where
  "service_pattern_colour =
     seqs [Lazy (Atom Dot), Group ''1'' (ts_millis CHR ''.''),
           Lazy (Atom Dot), lit ''| '', Group ''2'' (Plus (Atom Word)),
           Lazy (Atom Dot), lit ''| '',
           Group ''3'' (Plus (Atom (NotLit CHR '':''))), lit '':'',
           Group ''4'' (Plus (Atom Digit)), lit '' - '',
           Group ''5'' (Plus (Atom Dot))]"

definition service_pattern_short :: regex where
  "service_pattern_short =
     seqs [Group ''1'' ts_seconds, lit '' - '', Group ''2'' (Plus (Atom Word)), lit '' - '',
           Group ''3'' (Plus (Atom Dot))]"

definition service_patterns :: "regex list" where
  "service_patterns = [service_pattern_file, service_pattern_colour, service_pattern_short]"

definition log_levels :: "string list" where
  "log_levels = [''DEBUG'', ''INFO'', ''WARNING'', ''ERROR'', ''CRITICAL'']"

text \<open>The keywords of \<^verbatim>\<open>_categorize_message\<close>; those outside ASCII are written as
  the bytes of their UTF-8 encoding (the code points are named beside each).\<close>

definition heartbeat_keywords :: "string list" where
  "heartbeat_keywords =
     [[CHR 0xE5, CHR 0xBF, CHR 0x83, CHR 0xE8, CHR 0xB7, CHR 0xB3],  \<comment> \<open>U+5FC3 U+8DF3\<close>
      [CHR 0xE8, CHR 0xBF, CHR 0x9E, CHR 0xE6, CHR 0x8E, CHR 0xA5],  \<comment> \<open>U+8FDE U+63A5\<close>
      ''Token'', ''WebSocket'',
      [CHR 0xE6, CHR 0xB3, CHR 0xA8, CHR 0xE5, CHR 0x86, CHR 0x8C,
       CHR 0xE5, CHR 0xAE, CHR 0x8C, CHR 0xE6, CHR 0x88, CHR 0x90]]  \<comment> \<open>U+6CE8 U+518C U+5B8C U+6210\<close>"

definition kw_user :: string where  \<comment> \<open>U+7528 U+6237\<close>
  "kw_user = [CHR 0xE7, CHR 0x94, CHR 0xA8, CHR 0xE6, CHR 0x88, CHR 0xB7]"

definition kw_name :: string where  \<comment> \<open>U+540D\<close>
  "kw_name = [CHR 0xE5, CHR 0x90, CHR 0x8D]"

definition kw_reply :: string where  \<comment> \<open>U+56DE U+590D\<close>
  "kw_reply = [CHR 0xE5, CHR 0x9B, CHR 0x9E, CHR 0xE5, CHR 0xA4, CHR 0x8D]"

definition kw_robot :: string where  \<comment> \<open>U+673A U+5668 U+4EBA\<close>
  "kw_robot = [CHR 0xE6, CHR 0x9C, CHR 0xBA, CHR 0xE5, CHR 0x99, CHR 0xA8,
               CHR 0xE4, CHR 0xBA, CHR 0xBA]"

definition manual_keywords :: "string list" where
  "manual_keywords =
     [[CHR 0xE6, CHR 0x8E, CHR 0xA5, CHR 0xE7, CHR 0xAE, CHR 0xA1],  \<comment> \<open>U+63A5 U+7BA1\<close>
      [CHR 0xE4, CHR 0xBA, CHR 0xBA, CHR 0xE5, CHR 0xB7, CHR 0xA5],  \<comment> \<open>U+4EBA U+5DE5\<close>
      [CHR 0xE6, CHR 0x89, CHR 0x8B, CHR 0xE5, CHR 0x8A, CHR 0xA8],  \<comment> \<open>U+624B U+52A8\<close>
      [CHR 0xF0, CHR 0x9F, CHR 0x94, CHR 0xB4],                      \<comment> \<open>U+1F534\<close>
      [CHR 0xF0, CHR 0x9F, CHR 0x9F, CHR 0xA2]]                      \<comment> \<open>U+1F7E2\<close>"

definition error_keywords :: "string list" where
  "error_keywords =
     [[CHR 0xE9, CHR 0x94, CHR 0x99, CHR 0xE8, CHR 0xAF, CHR 0xAF],  \<comment> \<open>U+9519 U+8BEF\<close>
      [CHR 0xE5, CHR 0xA4, CHR 0xB1, CHR 0xE8, CHR 0xB4, CHR 0xA5],  \<comment> \<open>U+5931 U+8D25\<close>
      [CHR 0xE5, CHR 0xBC, CHR 0x82, CHR 0xE5, CHR 0xB8, CHR 0xB8],  \<comment> \<open>U+5F02 U+5E38\<close>
      ''error'', ''Error'', ''Exception'']"

definition categorize_message :: "string \<Rightarrow> string" where
  "categorize_message msg =
     (if list_ex (contains msg) heartbeat_keywords then ''heartbeat''
      else if startswith msg (kw_user @ '':'') \<or> contains msg (kw_user @ kw_name)
        then ''user_message''
      else if startswith msg (kw_robot @ kw_reply @ '':'') \<or> contains msg (''AI'' @ kw_reply)
        then ''bot_reply''
      else if list_ex (contains msg) manual_keywords then ''manual_mode''
      else if list_ex (contains msg) error_keywords then ''error''
      else ''system'')"

fun first_search :: "regex list \<Rightarrow> string \<Rightarrow> caps option" where
  "first_search [] s = None"
| "first_search (pattern # ps) s =
     (case re_search pattern s of
        Some (rest, groups) \<Rightarrow> Some groups
      | None \<Rightarrow> first_search ps s)"

definition parsed_of_match :: "datetime \<Rightarrow> string \<Rightarrow> caps \<Rightarrow> parsed_log" where
  "parsed_of_match now ln groups =
     (let five = (5 \<le> length groups);
          timestamp_str = group_get groups ''1'' [];
          lvl = group_get groups ''2'' [];
          modl = (if five then group_get groups ''3'' [] else ''main'');
          line_num = (if five then group_get groups ''4'' [] else ''0'');
          msg = (if five then group_get groups ''5'' [] else group_get groups ''3'' []);
          ts = (case strptime timestamp_str
                       (if CHR ''.'' \<in> set timestamp_str then Fmt_dot else Fmt_plain) of
                  Some dt \<Rightarrow> dt
                | None \<Rightarrow> now)
      in \<lparr>s_timestamp = strftime ts, s_level = upper lvl, s_module = modl,
          s_line_num = line_num, s_message = strip msg, s_raw_line = ln,
          s_category = categorize_message msg\<rparr>)"

definition LogService_parse_log_line :: "datetime \<Rightarrow> string \<Rightarrow> parsed_log option" where
  "LogService_parse_log_line now raw =
     (let ln = strip raw in
      if ln = [] \<or> startswith ln ''#'' then None
      else
        (case first_search service_patterns ln of
           Some groups \<Rightarrow> Some (parsed_of_match now ln groups)
         | None \<Rightarrow>
             if list_ex (contains (upper ln)) log_levels
             then Some \<lparr>s_timestamp = strftime now, s_level = ''INFO'',
                        s_module = ''unknown'', s_line_num = ''0'', s_message = ln,
                        s_raw_line = ln, s_category = ''system''\<rparr>
             else None))"

text \<open>
  \<^verbatim>\<open>read_new_logs\<close>: seek to the stored position, read to the end of the file, store
  the position reached. A position past the end of the file is a legal seek, reads
  nothing and stays where it is. The state is the stored position; any exception
  (\<open>read_ok\<close> false) is logged and leaves it as it was.
\<close>

definition read_new_logs ::
  "datetime \<Rightarrow> string option \<Rightarrow> bool \<Rightarrow> nat \<Rightarrow> nat \<times> parsed_log list" where
  "read_new_logs now file read_ok position =
     (case file of
        None \<Rightarrow> (position, [])
      | Some content \<Rightarrow>
          if \<not> read_ok then (position, [])
          else (max position (length content),
                List.map_filter (LogService_parse_log_line now)
                  (split_nl (drop position content))))"

section \<open>ConnectionManager (web\_manager/backend/app.py)\<close>

text \<open>
  The subscriber set is the list \<^verbatim>\<open>active_connections\<close>. Whether \<^verbatim>\<open>send_json\<close> to a
  connection returns or raises is given by \<open>send\<close>. The loop of \<^verbatim>\<open>broadcast_log\<close>
  returns the connections \<^verbatim>\<open>send_json\<close> was called on and those whose call raised;
  \<^verbatim>\<open>broadcast_log\<close> returns the former with the new subscriber list. An exception
  of a send is caught inside the loop, so the function has no error result.
\<close>

definition disconnect :: "'c \<Rightarrow> 'c list \<Rightarrow> 'c list" where
  "disconnect websocket active_connections =
     (if websocket \<in> set active_connections then remove1 websocket active_connections
      else active_connections)"

fun send_all :: "('c \<Rightarrow> bool) \<Rightarrow> 'c list \<Rightarrow> 'c list \<times> 'c list" where
  "send_all send [] = ([], [])"
| "send_all send (connection # cs) =
     (let (called, disconnected) = send_all send cs
      in (connection # called,
          if send connection then disconnected else connection # disconnected))"

definition broadcast_log :: "('c \<Rightarrow> bool) \<Rightarrow> 'c list \<Rightarrow> 'c list \<times> 'c list" where
  "broadcast_log send active_connections =
     (if active_connections \<noteq> [] then
        let (called, disconnected) = send_all send active_connections
        in (called, foldl (\<lambda>conns c. disconnect c conns) active_connections disconnected)
      else ([], active_connections))"

section \<open>The process supervisors\<close>

text \<open>What a call into \<^verbatim>\<open>psutil\<close> or \<^verbatim>\<open>subprocess\<close> does: it returns, or raises one
  of the exceptions the source distinguishes, or some other exception.\<close>

datatype outcome = Ok | NoSuchProcess | TimeoutExpired | OtherError

datatype stop_result = Completed | Raised

subsection \<open>ProcessManager (web\_manager/backend/services/process\_manager.py)\<close>

text \<open>
  \<^verbatim>\<open>process_info\<close> is the dictionary of the supervised process; the model keeps its
  \<^verbatim>\<open>'pid'\<close> entry (\<open>None\<close>: the empty dictionary) and leaves the resource figures out.
\<close>

record pm_state =
  process :: "nat option"
  process_info :: "nat option"
  start_time :: "datetime option"
  is_monitoring :: bool

datatype status_text = St_running | St_not_running | St_check_failed

record pm_status =
  is_running :: bool
  pid :: "nat option"
  status :: status_text

definition cleanup_process_info :: "pm_state \<Rightarrow> pm_state" where
  "cleanup_process_info st = st\<lparr>process := None, process_info := None, start_time := None\<rparr>"

text \<open>\<^verbatim>\<open>get_status\<close>; \<open>probe\<close> is what \<^verbatim>\<open>psutil.Process(pid)\<close> and the reads of its
  figures do.\<close>

definition get_status :: "outcome \<Rightarrow> pm_state \<Rightarrow> pm_status \<times> pm_state" where
  "get_status probe st =
     (case process_info st of
        None \<Rightarrow> (\<lparr>is_running = False, pid = None, status = St_not_running\<rparr>, st)
      | Some p \<Rightarrow>
          (case probe of
             Ok \<Rightarrow> (\<lparr>is_running = True, pid = Some p, status = St_running\<rparr>, st)
           | NoSuchProcess \<Rightarrow>
               (\<lparr>is_running = False, pid = None, status = St_not_running\<rparr>,
                cleanup_process_info st)
           | _ \<Rightarrow> (\<lparr>is_running = False, pid = None, status = St_check_failed\<rparr>, st)))"

text \<open>The environment of one \<^verbatim>\<open>stop_process\<close> call: what each library call does.\<close>

record stop_env =
  probe :: outcome          \<comment> \<open>the liveness probe of \<^verbatim>\<open>get_status\<close>\<close>
  lookup :: outcome         \<comment> \<open>\<^verbatim>\<open>psutil.Process(pid)\<close>\<close>
  terminate :: outcome      \<comment> \<open>\<^verbatim>\<open>proc.terminate()\<close>\<close>
  wait_first :: outcome     \<comment> \<open>\<^verbatim>\<open>proc.wait(timeout=10)\<close>\<close>
  kill :: outcome           \<comment> \<open>\<^verbatim>\<open>proc.kill()\<close>\<close>
  wait_second :: outcome    \<comment> \<open>\<^verbatim>\<open>proc.wait(timeout=5)\<close>\<close>

text \<open>The inner \<^verbatim>\<open>try\<close> of \<^verbatim>\<open>stop_process\<close>: \<^verbatim>\<open>NoSuchProcess\<close> is caught and the
  function goes on; \<^verbatim>\<open>TimeoutExpired\<close> of the first wait leads to the kill; every
  other exception leaves the block.\<close>

definition after_kill :: "stop_env \<Rightarrow> stop_result" where
  "after_kill e =
     (case kill e of
        Ok \<Rightarrow> (case wait_second e of Ok \<Rightarrow> Completed | NoSuchProcess \<Rightarrow> Completed
                | _ \<Rightarrow> Raised)
      | NoSuchProcess \<Rightarrow> Completed
      | _ \<Rightarrow> Raised)"

definition terminate_and_wait :: "stop_env \<Rightarrow> stop_result" where
  "terminate_and_wait e =
     (case lookup e of
        NoSuchProcess \<Rightarrow> Completed
      | Ok \<Rightarrow>
          (case terminate e of
             NoSuchProcess \<Rightarrow> Completed
           | Ok \<Rightarrow>
               (case wait_first e of
                  Ok \<Rightarrow> Completed
                | NoSuchProcess \<Rightarrow> Completed
                | TimeoutExpired \<Rightarrow> after_kill e
                | OtherError \<Rightarrow> Raised)
           | _ \<Rightarrow> Raised)
      | _ \<Rightarrow> Raised)"

datatype stop_message =
    Msg_not_running   \<comment> \<open>the message that the process is not running\<close>
  | Msg_stopped       \<comment> \<open>the message that the process has been stopped\<close>
  | Msg_exception     \<comment> \<open>the message that stopping raised, with the exception's text\<close>

record op_result =
  success :: bool
  result_message :: stop_message
  result_pid :: "nat option"

definition stop_process :: "stop_env \<Rightarrow> pm_state \<Rightarrow> op_result \<times> pm_state" where
  "stop_process e st =
     (let (st_info, st1) = get_status (probe e) st in
      if \<not> is_running st_info
      then (\<lparr>success = True, result_message = Msg_not_running, result_pid = None\<rparr>, st1)
      else
        let st2 = st1\<lparr>is_monitoring := False\<rparr> in
        (case terminate_and_wait e of
           Completed \<Rightarrow>
             (\<lparr>success = True, result_message = Msg_stopped, result_pid = pid st_info\<rparr>,
              cleanup_process_info st2)
         | Raised \<Rightarrow>
             (\<lparr>success = False, result_message = Msg_exception, result_pid = None\<rparr>, st2)))"

subsection \<open>ProcessManager (web\_app.py)\<close>

record app_state =
  app_process :: "nat option"
  app_status :: string
  app_start_time :: "datetime option"

record popen_env =
  p_terminate :: outcome   \<comment> \<open>\<^verbatim>\<open>self.process.terminate()\<close>\<close>
  p_wait_first :: outcome  \<comment> \<open>\<^verbatim>\<open>self.process.wait(timeout=10)\<close>\<close>
  p_kill :: outcome        \<comment> \<open>\<^verbatim>\<open>self.process.kill()\<close>\<close>
  p_wait_second :: outcome \<comment> \<open>\<^verbatim>\<open>self.process.wait()\<close>\<close>

text \<open>The inner \<^verbatim>\<open>try\<close> of \<^verbatim>\<open>stop_main_process\<close>: only \<^verbatim>\<open>TimeoutExpired\<close> is caught
  there, and its handler kills and waits again.\<close>

definition popen_stop :: "popen_env \<Rightarrow> stop_result" where
  "popen_stop e =
     (case (if p_terminate e = Ok then p_wait_first e else p_terminate e) of
        Ok \<Rightarrow> Completed
      | TimeoutExpired \<Rightarrow>
          (if p_kill e = Ok \<and> p_wait_second e = Ok then Completed else Raised)
      | _ \<Rightarrow> Raised)"

datatype app_message =
    App_not_running   \<comment> \<open>the message that the main process is not running\<close>
  | App_stopped       \<comment> \<open>the message that the main process has been stopped\<close>
  | App_stop_failed   \<comment> \<open>the message that stopping failed, with the exception's text\<close>

definition stop_main_process ::
  "popen_env \<Rightarrow> app_state \<Rightarrow> (bool \<times> app_message) \<times> app_state" where
  "stop_main_process e st =
     (if app_status st \<noteq> ''running'' then ((False, App_not_running), st)
      else
        (case app_process st of
           None \<Rightarrow>
             ((True, App_stopped), st\<lparr>app_status := ''stopped'', app_start_time := None\<rparr>)
         | Some p \<Rightarrow>
             (case popen_stop e of
                Completed \<Rightarrow>
                  ((True, App_stopped),
                   st\<lparr>app_process := None, app_status := ''stopped'',
                      app_start_time := None\<rparr>)
              | Raised \<Rightarrow> ((False, App_stop_failed), st\<lparr>app_status := ''stopped''\<rparr>))))"

text \<open>
  \<^verbatim>\<open>get_status\<close> of this class: the status word and the pid of the stored handle
  are read first; when the state is running with a handle, the handle is polled
  (\<open>alive\<close>: \<^verbatim>\<open>poll()\<close> returns \<^verbatim>\<open>None\<close>) and \<^verbatim>\<open>psutil\<close> is asked for the figures
  (\<open>ps\<close>), and a process found gone resets the state and the reported status word.
\<close>

definition app_reset :: "app_state \<Rightarrow> app_state" where
  "app_reset st = st\<lparr>app_process := None, app_status := ''stopped'', app_start_time := None\<rparr>"

definition app_get_status ::
  "bool \<Rightarrow> outcome \<Rightarrow> app_state \<Rightarrow> (string \<times> nat option) \<times> app_state" where
  "app_get_status alive ps st =
     (if app_status st = ''running'' \<and> app_process st \<noteq> None then
        if \<not> alive then ((''stopped'', app_process st), app_reset st)
        else if ps = NoSuchProcess then ((''stopped'', app_process st), app_reset st)
        else ((app_status st, app_process st), st)
      else ((app_status st, app_process st), st))"

section \<open>Example values\<close>

text \<open>A clock reading, buffer entries and a small timestamp parser for the concrete
  instances below.\<close>

definition clock0 :: datetime where
  "clock0 = \<lparr>year = 2024, month = 1, day = 20, hour = 10, minute = 30, second = 0, microsecond = 0\<rparr>"




section \<open>Evaluation\<close>

text \<open>Recursion over a numeral, one step at a time, and the definitions that a
  concrete run of the matcher, of the date functions and of the loop unfolds.\<close>

lemma rep_numeral: "rep f (numeral n) s c k = f s c (\<lambda>s' c'. rep f (pred_numeral n) s' c' k)"
  by (simp add: numeral_eq_Suc [of n])

lemma zpad_numeral: "zpad (numeral w) n = zpad (pred_numeral w) (n div 10) @ [digit_char n]"
  by (simp add: numeral_eq_Suc [of w])

lemma replicate_numeral_Cons: "replicate (numeral w) x = x # replicate (pred_numeral w) x"
  by (simp add: numeral_eq_Suc [of w])

lemmas re_eval = re_match_def seqs_def lit_def alts_def opt_def isspace_def isdigit_def isword_def
  rep_numeral ts_seconds_def ts_millis_def

lemmas dt_eval = strptime_def format_regex_def dir_Y_def dir_m_def dir_d_def dir_H_def dir_M_def
  dir_S_def dir_f_def group_get_def int_of_digits_def digit_val_def is_leap_def days_in_month_def
  isoformat_def strftime_def zpad_numeral digit_char_def replicate_numeral_Cons

lemmas monitor_eval = LogMonitor_parse_log_content_def LogMonitor_parse_log_line_def log_patterns_def
  pattern_loguru_def pattern_standard_def pattern_simple_def strip_def entry_of_match_def
  normalize_timestamp_def List.map_filter_def


section \<open>The process supervisors: stopping\<close>

lemma stop_process_not_running:
  assumes "\<not> is_running (fst (get_status (probe e) st))"
  shows "stop_process e st =
           (\<lparr>success = True, result_message = Msg_not_running, result_pid = None\<rparr>,
            snd (get_status (probe e) st))"
  using assms by (cases "get_status (probe e) st") (simp add: stop_process_def)

text \<open>When nothing escapes the inner block, \<^verbatim>\<open>stop_process\<close> clears the handle and
  the dictionary; when an exception escapes it, both are left as they were.\<close>

lemma stop_process_completed:
  assumes "is_running (fst (get_status (probe e) st))" and "terminate_and_wait e = Completed"
  shows "process_info (snd (stop_process e st)) = None \<and> process (snd (stop_process e st)) = None
         \<and> success (fst (stop_process e st))"
  using assms
  by (cases "get_status (probe e) st") (simp add: stop_process_def cleanup_process_info_def)

lemma stop_process_raised:
  assumes "is_running (fst (get_status (probe e) st))" and "terminate_and_wait e = Raised"
  shows "process_info (snd (stop_process e st)) = process_info st
         \<and> process (snd (stop_process e st)) = process st
         \<and> \<not> success (fst (stop_process e st))"
  using assms
  by (auto simp add: stop_process_def get_status_def split: prod.splits option.splits outcome.splits)

text \<open>\<^verbatim>\<open>stop_main_process\<close> on a running supervisor always ends with the status word
  \<^verbatim>\<open>stopped\<close>; the handle is cleared only when nothing was raised.\<close>

lemma stop_main_process_status:
  "app_status st = ''running'' \<Longrightarrow> app_status (snd (stop_main_process e st)) = ''stopped''"
  by (simp add: stop_main_process_def split: option.splits stop_result.splits)

lemma stop_main_process_raised:
  "app_status st = ''running'' \<Longrightarrow> app_process st = Some p \<Longrightarrow> popen_stop e = Raised \<Longrightarrow>
   stop_main_process e st = ((False, App_stop_failed), st\<lparr>app_status := ''stopped''\<rparr>)"
  by (simp add: stop_main_process_def)

text \<open>
  Claim C1 says that every stop ends with the handle cleared, also when the
  termination signal, the wait or the kill raises, so that a status query right
  after it reports no running process. The code at an input where
  \<^verbatim>\<open>terminate()\<close> raises (access denied, say) while the process stays alive:
  \<^verbatim>\<open>stop_process\<close> returns failure and keeps \<^verbatim>\<open>process\<close> and \<^verbatim>\<open>process_info\<close>, and the
  next \<^verbatim>\<open>get_status\<close> reports the process as running; \<^verbatim>\<open>stop_main_process\<close> sets the
  status word to stopped but keeps the handle, whose pid the next status query
  still reports.
\<close>

theorem C1_stop_keeps_handle_on_exception:
  "stop_process
     \<lparr>probe = Ok, lookup = Ok, terminate = OtherError, wait_first = Ok, kill = Ok, wait_second = Ok\<rparr>
     \<lparr>process = Some 4242, process_info = Some 4242, start_time = Some t, is_monitoring = True\<rparr>
   = (\<lparr>success = False, result_message = Msg_exception, result_pid = None\<rparr>,
      \<lparr>process = Some 4242, process_info = Some 4242, start_time = Some t, is_monitoring = False\<rparr>)
   \<and> fst (get_status Ok
        \<lparr>process = Some 4242, process_info = Some 4242, start_time = Some t, is_monitoring = False\<rparr>)
     = \<lparr>is_running = True, pid = Some 4242, status = St_running\<rparr>
   \<and> stop_main_process
       \<lparr>p_terminate = OtherError, p_wait_first = Ok, p_kill = Ok, p_wait_second = Ok\<rparr>
       \<lparr>app_process = Some 4242, app_status = ''running'', app_start_time = Some t\<rparr>
     = ((False, App_stop_failed),
        \<lparr>app_process = Some 4242, app_status = ''stopped'', app_start_time = Some t\<rparr>)
   \<and> fst (app_get_status alive ps
        \<lparr>app_process = Some 4242, app_status = ''stopped'', app_start_time = Some t\<rparr>)
     = (''stopped'', Some 4242)"
  by (simp add: stop_process_def get_status_def terminate_and_wait_def
        stop_main_process_def popen_stop_def app_get_status_def)

text \<open>
  Claim C2, as amended: a stop while no process is running does not start the stop
  sequence and reports that nothing is running. \<^verbatim>\<open>stop_main_process\<close> (web\_app.py)
  returns failure with the not-running message and leaves the state as it is;
  \<^verbatim>\<open>stop_process\<close> (process\_manager.py) returns the not-running message with
  \<^verbatim>\<open>success = True\<close> and no pid.
\<close>

theorem C2_stop_when_not_running:
  "(app_status ast \<noteq> ''running'' \<longrightarrow>
      stop_main_process pe ast = ((False, App_not_running), ast)) \<and>
   (\<not> is_running (fst (get_status (probe e) st)) \<longrightarrow>
      fst (stop_process e st) =
        \<lparr>success = True, result_message = Msg_not_running, result_pid = None\<rparr>)"
  by (simp add: stop_main_process_def stop_process_not_running)

text \<open>C2, an instance: both supervisors in their initial, stopped state.\<close>

theorem C2_stop_when_not_running_witness:
  "app_status \<lparr>app_process = None, app_status = ''stopped'', app_start_time = None\<rparr> \<noteq> ''running''
   \<and> stop_main_process
        \<lparr>p_terminate = Ok, p_wait_first = Ok, p_kill = Ok, p_wait_second = Ok\<rparr>
        \<lparr>app_process = None, app_status = ''stopped'', app_start_time = None\<rparr>
      = ((False, App_not_running),
         \<lparr>app_process = None, app_status = ''stopped'', app_start_time = None\<rparr>)
   \<and> \<not> is_running (fst (get_status Ok
         \<lparr>process = None, process_info = None, start_time = None, is_monitoring = False\<rparr>))
   \<and> fst (stop_process
         \<lparr>probe = Ok, lookup = Ok, terminate = Ok, wait_first = Ok, kill = Ok, wait_second = Ok\<rparr>
         \<lparr>process = None, process_info = None, start_time = None, is_monitoring = False\<rparr>)
      = \<lparr>success = True, result_message = Msg_not_running, result_pid = None\<rparr>"
proof -
  let ?ast = "\<lparr>app_process = None, app_status = ''stopped'', app_start_time = None\<rparr>"
  let ?e = "\<lparr>probe = Ok, lookup = Ok, terminate = Ok, wait_first = Ok, kill = Ok, wait_second = Ok\<rparr>"
  let ?st = "\<lparr>process = None, process_info = None, start_time = None, is_monitoring = False\<rparr>"
  have a: "app_status ?ast \<noteq> ''running''" by simp
  have b: "\<not> is_running (fst (get_status (probe ?e) ?st))" by (simp add: get_status_def)
  from C2_stop_when_not_running [of ?ast _ ?e ?st] a b show ?thesis by simp
qed

text \<open>C2 as stated (the result of a stop on a stopped supervisor has
  \<^verbatim>\<open>success = False\<close>) fails for \<^verbatim>\<open>stop_process\<close> in its initial state.\<close>

theorem C2_counterexample:
  "\<not> (success (fst (stop_process
         \<lparr>probe = Ok, lookup = Ok, terminate = Ok, wait_first = Ok, kill = Ok, wait_second = Ok\<rparr>
         \<lparr>process = None, process_info = None, start_time = None, is_monitoring = False\<rparr>))
       = False)"
  by (simp add: stop_process_def get_status_def)

section \<open>The tail loop: offsets\<close>


lemma failed_read_advances:
  "last_position m < length content \<Longrightarrow>
   monitoring_iteration now (Some content) False m = (m\<lparr>last_position := length content\<rparr>, [])"
  by (simp add: monitoring_iteration_def read_new_content_def)

text \<open>\<^verbatim>\<open>read_new_logs\<close> of the other service stores the new position only after the
  read has succeeded, and has no test for a file that shrank.\<close>

lemma read_new_logs_failed_read:
  "read_new_logs now (Some content) False position = (position, [])"
  by (simp add: read_new_logs_def)

lemma read_new_logs_no_reset:
  "length content < position \<Longrightarrow> read_new_logs now (Some content) True position = (position, [])"
  by (simp add: read_new_logs_def List.map_filter_def LogService_parse_log_line_def strip_def)

text \<open>
  Claim C3 says that the offset moves to the new size only when the appended bytes
  were read, so that no appended bytes are skipped. The code at a file of 16 new
  bytes whose read fails: the iteration delivers nothing and stores offset 16, and
  the next iteration, with a working read, sees no growth and delivers nothing:
  the 16 bytes are never delivered.
\<close>

theorem C3_failed_read_advances_offset:
  "monitoring_iteration now (Some ''ERROR: disk full'') False LogMonitor_init
     = (LogMonitor_init\<lparr>last_position := 16\<rparr>, [])
   \<and> monitoring_iteration now (Some ''ERROR: disk full'') True
       (LogMonitor_init\<lparr>last_position := 16\<rparr>)
     = (LogMonitor_init\<lparr>last_position := 16\<rparr>, [])"
  by (simp add: monitoring_iteration_def read_new_content_def LogMonitor_init_def)






section \<open>The history buffer\<close>











section \<open>Broadcasting\<close>

lemma send_all_eq: "send_all send cs = (cs, filter (\<lambda>c. \<not> send c) cs)"
  by (induction cs) simp_all

lemma disconnect_remove1: "disconnect c conns = remove1 c conns"
  by (simp add: disconnect_def remove1_idem)

lemma remove1_append_notin: "x \<notin> set ys \<Longrightarrow> remove1 x (ys @ x # xs) = ys @ xs"
  by (induction ys) auto

lemma fold_disconnect_failed:
  "list_all send ys \<Longrightarrow>
   foldl (\<lambda>conns c. disconnect c conns) (ys @ xs) (filter (\<lambda>c. \<not> send c) xs)
     = ys @ filter send xs"
proof (induction xs arbitrary: ys)
  case Nil
  then show ?case by simp
next
  case (Cons x xs)
  show ?case
  proof (cases "send x")
    case True
    with Cons.prems have "list_all send (ys @ [x])" by simp
    from Cons.IH [OF this] True show ?thesis by simp
  next
    case False
    with Cons.prems have "x \<notin> set ys" by (auto simp: list_all_iff)
    then have "remove1 x (ys @ x # xs) = ys @ xs" by (rule remove1_append_notin)
    with False Cons.IH [OF Cons.prems] show ?thesis by (simp add: disconnect_remove1)
  qed
qed

text \<open>
  Claim C9: \<^verbatim>\<open>broadcast_log\<close> has no error result; \<^verbatim>\<open>send_json\<close> is called on every
  connection of the list, in order, whatever the other sends do; and the list it
  leaves is the connections whose send succeeded, every connection whose send
  raised having been removed.
\<close>

theorem C9_broadcast_isolates_failed_sends:
  "broadcast_log send conns = (conns, filter send conns)"
proof (cases "conns = []")
  case True
  then show ?thesis by (simp add: broadcast_log_def)
next
  case False
  have "foldl (\<lambda>cs c. disconnect c cs) ([] @ conns) (filter (\<lambda>c. \<not> send c) conns)
          = [] @ filter send conns"
    by (rule fold_disconnect_failed) simp
  with False show ?thesis
    by (simp add: broadcast_log_def send_all_eq)
qed

section \<open>Searching the buffer\<close>








section \<open>The line parsers\<close>

lemma first_match_head:
  "re_match p s = Some (rest, groups) \<Longrightarrow> first_match ((name, p) # ps) s = Some (name, groups)"
  by simp

text \<open>
  Claim C5, as amended: on the line
  \<^verbatim>\<open>2024-01-20 10:30:00.123 | INFO | main:handle:42 - hello\<close> the parser of
  \<^verbatim>\<open>LogMonitor\<close> returns an entry, built from the first pattern of its ordered list
  (\<^verbatim>\<open>loguru\<close>), with level INFO, module \<^verbatim>\<open>main\<close>, function \<^verbatim>\<open>handle\<close>, line 42 and
  message \<^verbatim>\<open>hello\<close>; its timestamp is the ISO text of the instant
  2024-01-20 10:30:00 and 123000 microseconds, whatever the clock reads.
\<close>

theorem C5_parse_loguru_line:
  "LogMonitor_parse_log_line now ''2024-01-20 10:30:00.123 | INFO | main:handle:42 - hello''
     = Some \<lparr>timestamp = ''2024-01-20T10:30:00.123000'', level = ''INFO'',
              logger_name = ''main'', message = ''hello'', module = ''main'',
              func = ''handle'', line = Some 42,
              raw_line = ''2024-01-20 10:30:00.123 | INFO | main:handle:42 - hello'',
              pattern_type = ''loguru''\<rparr>
   \<and> strptime ''2024-01-20 10:30:00.123'' Fmt_dot
     = Some \<lparr>year = 2024, month = 1, day = 20, hour = 10, minute = 30, second = 0,
              microsecond = 123000\<rparr>
   \<and> map fst log_patterns = [''loguru'', ''standard'', ''simple'']"
proof -
  have a: "LogMonitor_parse_log_line now ''2024-01-20 10:30:00.123 | INFO | main:handle:42 - hello''
     = Some \<lparr>timestamp = ''2024-01-20T10:30:00.123000'', level = ''INFO'',
              logger_name = ''main'', message = ''hello'', module = ''main'',
              func = ''handle'', line = Some 42,
              raw_line = ''2024-01-20 10:30:00.123 | INFO | main:handle:42 - hello'',
              pattern_type = ''loguru''\<rparr>"
    by (simp add: monitor_eval re_eval dt_eval)
  have b: "strptime ''2024-01-20 10:30:00.123'' Fmt_dot
     = Some \<lparr>year = 2024, month = 1, day = 20, hour = 10, minute = 30, second = 0,
              microsecond = 123000\<rparr>"
    by (simp add: re_eval dt_eval)
  have c: "map fst log_patterns = [''loguru'', ''standard'', ''simple'']"
    by (simp add: log_patterns_def)
  from a b c show ?thesis by simp
qed

text \<open>
  C5 as stated, read of the parser of \<^verbatim>\<open>LogService\<close>, fails: its records have no
  function field and its patterns expect \<^verbatim>\<open>module:line\<close>, so on the same line none
  of the three matches and the line falls through to the best-effort record, whose
  module is \<^verbatim>\<open>unknown\<close>, whose line number is \<^verbatim>\<open>0\<close> and whose message is the whole line.
\<close>

theorem C5_counterexample:
  "LogService_parse_log_line clock0 ''2024-01-20 10:30:00.123 | INFO | main:handle:42 - hello''
     = Some \<lparr>s_timestamp = ''2024-01-20 10:30:00'', s_level = ''INFO'',
              s_module = ''unknown'', s_line_num = ''0'',
              s_message = ''2024-01-20 10:30:00.123 | INFO | main:handle:42 - hello'',
              s_raw_line = ''2024-01-20 10:30:00.123 | INFO | main:handle:42 - hello'',
              s_category = ''system''\<rparr>
   \<and> map_option s_module
         (LogService_parse_log_line clock0
            ''2024-01-20 10:30:00.123 | INFO | main:handle:42 - hello'') \<noteq> Some ''main''
   \<and> map_option s_line_num
         (LogService_parse_log_line clock0
            ''2024-01-20 10:30:00.123 | INFO | main:handle:42 - hello'') \<noteq> Some ''42''
   \<and> map_option s_message
         (LogService_parse_log_line clock0
            ''2024-01-20 10:30:00.123 | INFO | main:handle:42 - hello'') \<noteq> Some ''hello''"
proof -
  let ?l = "''2024-01-20 10:30:00.123 | INFO | main:handle:42 - hello''"
  have s: "strip ?l = ?l" by (simp add: strip_def isspace_def)
  have c1: "re_search service_pattern_file ?l = None"
    by (simp add: service_pattern_file_def re_eval)
  have c2: "re_search service_pattern_colour ?l = None"
    by (simp add: service_pattern_colour_def re_eval)
  have c3: "re_search service_pattern_short ?l = None"
    by (simp add: service_pattern_short_def re_eval)
  have d: "list_ex (contains (upper ?l)) log_levels"
    by (simp add: log_levels_def upper_def upper_char_def)
  have t: "strftime clock0 = ''2024-01-20 10:30:00''"
    by (simp add: clock0_def dt_eval)
  have f: "first_search service_patterns ?l = None"
    by (simp only: service_patterns_def first_search.simps c1 c2 c3 option.case)
  have n: "\<not> (?l = [] \<or> startswith ?l ''#'')" by simp
  have r: "LogService_parse_log_line clock0 ?l
     = Some \<lparr>s_timestamp = ''2024-01-20 10:30:00'', s_level = ''INFO'',
              s_module = ''unknown'', s_line_num = ''0'', s_message = ?l, s_raw_line = ?l,
              s_category = ''system''\<rparr>"
    by (simp only: LogService_parse_log_line_def Let_def s f n d t option.case if_True if_False)
  show ?thesis by (simp add: r)
qed

lemma first_search_None:
  "first_search ps s = None \<longleftrightarrow> list_all (\<lambda>p. re_search p s = None) ps"
  by (induction ps) (auto split: option.splits)

text \<open>
  Claim C6: a line that, stripped, is not empty, does not start with the comment
  marker, is matched by none of the patterns of \<^verbatim>\<open>parse_log_line\<close> and contains one
  of the level keywords when upper-cased is not dropped: the result is the
  best-effort record with level INFO and module \<^verbatim>\<open>unknown\<close>, carrying the stripped
  line as its message.
\<close>

theorem C6_unmatched_line_with_level_keyword:
  assumes "strip raw \<noteq> []" and "\<not> startswith (strip raw) ''#''"
    and "list_all (\<lambda>p. re_search p (strip raw) = None) service_patterns"
    and "list_ex (contains (upper (strip raw))) log_levels"
  shows "LogService_parse_log_line now raw
           = Some \<lparr>s_timestamp = strftime now, s_level = ''INFO'', s_module = ''unknown'',
                    s_line_num = ''0'', s_message = strip raw, s_raw_line = strip raw,
                    s_category = ''system''\<rparr>"
proof -
  have "first_search service_patterns (strip raw) = None"
    using assms(3) by (simp add: first_search_None)
  with assms(1,2,4) show ?thesis
    by (simp add: LogService_parse_log_line_def Let_def)
qed

text \<open>C6, an instance: a line with the keyword ERROR and no timestamp.\<close>

theorem C6_unmatched_line_with_level_keyword_witness:
  "strip '' disk ERROR at 10:30 '' \<noteq> []
   \<and> \<not> startswith (strip '' disk ERROR at 10:30 '') ''#''
   \<and> list_all (\<lambda>p. re_search p (strip '' disk ERROR at 10:30 '') = None) service_patterns
   \<and> list_ex (contains (upper (strip '' disk ERROR at 10:30 ''))) log_levels
   \<and> LogService_parse_log_line clock0 '' disk ERROR at 10:30 ''
       = Some \<lparr>s_timestamp = ''2024-01-20 10:30:00'', s_level = ''INFO'',
                s_module = ''unknown'', s_line_num = ''0'',
                s_message = ''disk ERROR at 10:30'', s_raw_line = ''disk ERROR at 10:30'',
                s_category = ''system''\<rparr>"
proof -
  have s: "strip '' disk ERROR at 10:30 '' = ''disk ERROR at 10:30''"
    by (simp add: strip_def isspace_def)
  have a: "strip '' disk ERROR at 10:30 '' \<noteq> []" by (simp add: s)
  have b: "\<not> startswith (strip '' disk ERROR at 10:30 '') ''#''" by (simp add: s)
  have c1: "re_search service_pattern_file ''disk ERROR at 10:30'' = None"
    by (simp add: service_pattern_file_def re_eval)
  have c2: "re_search service_pattern_colour ''disk ERROR at 10:30'' = None"
    by (simp add: service_pattern_colour_def re_eval)
  have c3: "re_search service_pattern_short ''disk ERROR at 10:30'' = None"
    by (simp add: service_pattern_short_def re_eval)
  have c: "list_all (\<lambda>p. re_search p (strip '' disk ERROR at 10:30 '') = None) service_patterns"
    by (simp only: s service_patterns_def list_all_Nil_iff list_all_Cons_iff c1 c2 c3 simp_thms)
  have d: "list_ex (contains (upper (strip '' disk ERROR at 10:30 ''))) log_levels"
    by (simp add: s log_levels_def upper_def upper_char_def)
  have t: "strftime clock0 = ''2024-01-20 10:30:00''"
    by (simp add: clock0_def dt_eval)
  from C6_unmatched_line_with_level_keyword [OF a b c d, of clock0] a b c d s t
  show ?thesis by simp
qed

text \<open>\<^verbatim>\<open>LogMonitor._parse_log_line\<close> keeps every unmatched line, with or without a
  keyword, under the logger name \<^verbatim>\<open>unknown\<close>.\<close>

lemma LogMonitor_unmatched_line:
  "first_match log_patterns (strip ln) = None \<Longrightarrow>
   LogMonitor_parse_log_line now ln
     = Some \<lparr>timestamp = isoformat now, level = ''INFO'', logger_name = ''unknown'',
              message = strip ln, module = [], func = [], line = None,
              raw_line = ln, pattern_type = ''unknown''\<rparr>"
  by (simp add: LogMonitor_parse_log_line_def)


lemma strip_Nil: "strip [] = []"
  by (simp add: strip_def)

lemma strip_blank: "list_all isspace raw \<Longrightarrow> strip raw = []"
proof -
  assume "list_all isspace raw"
  then have d: "dropWhile isspace raw = []" by (metis dropWhile_eq_Nil_conv list_all_iff)
  show "strip raw = []" unfolding strip_def d by simp
qed

lemma strip_hash:
  assumes "dropWhile isspace raw = CHR ''#'' # rest"
  shows "\<exists>t. strip raw = CHR ''#'' # t"
proof -
  have ns: "\<not> isspace CHR ''#''" by (simp add: isspace_def)
  have "dropWhile isspace (rev rest @ [CHR ''#'']) =
          (if \<forall>x\<in>set (rev rest). isspace x then [CHR ''#'']
           else dropWhile isspace (rev rest) @ [CHR ''#''])"
    using ns by (simp add: dropWhile_append)
  then obtain u where "dropWhile isspace (rev rest @ [CHR ''#'']) = u @ [CHR ''#'']"
    by (metis append_Nil)
  then show ?thesis using assms by (simp add: strip_def)
qed

lemma LogMonitor_parse_log_line_raw:
  "LogMonitor_parse_log_line now ln = Some e \<Longrightarrow> raw_line e = ln"
  by (auto simp: LogMonitor_parse_log_line_def entry_of_match_def split: option.splits)

lemma LogMonitor_blank_content:
  "list_all isspace content \<Longrightarrow> LogMonitor_parse_log_content now content = []"
  by (simp add: LogMonitor_parse_log_content_def strip_blank strip_Nil List.map_filter_def)

lemma LogMonitor_entries_not_blank:
  assumes "e \<in> set (LogMonitor_parse_log_content now content)"
  shows "\<not> list_all isspace (raw_line e)"
proof -
  from assms obtain ln where
    "(if strip ln = [] then None else LogMonitor_parse_log_line now ln) = Some e"
    by (auto simp: LogMonitor_parse_log_content_def List.map_filter_def)
  then have s: "strip ln \<noteq> []" and p: "LogMonitor_parse_log_line now ln = Some e"
    by (auto split: if_splits)
  from p have "raw_line e = ln" by (rule LogMonitor_parse_log_line_raw)
  with s strip_blank [of ln] show ?thesis by auto
qed

text \<open>
  Claim C7, as amended: \<^verbatim>\<open>LogService.parse_log_line\<close> returns \<^verbatim>\<open>None\<close> for every line
  that consists of whitespace only (the empty line included) and for every line
  whose first character after the leading whitespace is \<^verbatim>\<open>#\<close>. In \<^verbatim>\<open>LogMonitor\<close>
  a blank line yields no entry either: content of blank lines only gives the empty
  list, and no entry that \<^verbatim>\<open>_parse_log_content\<close> returns comes from a blank line.
  (\<^verbatim>\<open>LogMonitor\<close> has no test for the comment marker.)
\<close>

theorem C7_blank_and_comment_lines_filtered:
  "(list_all isspace raw \<longrightarrow> LogService_parse_log_line now raw = None) \<and>
   (dropWhile isspace raw = CHR ''#'' # rest \<longrightarrow> LogService_parse_log_line now raw = None) \<and>
   (list_all isspace blank \<longrightarrow> LogMonitor_parse_log_content now blank = []) \<and>
   (\<forall>e \<in> set (LogMonitor_parse_log_content now content). \<not> list_all isspace (raw_line e))"
proof (intro conjI impI ballI)
  assume "list_all isspace raw"
  then show "LogService_parse_log_line now raw = None"
    by (simp add: LogService_parse_log_line_def strip_blank)
next
  assume "dropWhile isspace raw = CHR ''#'' # rest"
  then obtain t where "strip raw = CHR ''#'' # t" using strip_hash by blast
  then show "LogService_parse_log_line now raw = None"
    by (simp add: LogService_parse_log_line_def)
next
  assume "list_all isspace blank"
  then show "LogMonitor_parse_log_content now blank = []" by (rule LogMonitor_blank_content)
next
  fix e assume "e \<in> set (LogMonitor_parse_log_content now content)"
  then show "\<not> list_all isspace (raw_line e)" by (rule LogMonitor_entries_not_blank)
qed

text \<open>C7, an instance: a line of a space, a tab and a newline; an indented comment
  that contains a level keyword; and content of two lines with a blank line between
  them, of which two entries come.\<close>

theorem C7_blank_and_comment_lines_filtered_witness:
  "list_all isspace [CHR '' '', CHR 0x09, CHR 0x0A]
   \<and> LogService_parse_log_line clock0 [CHR '' '', CHR 0x09, CHR 0x0A] = None
   \<and> dropWhile isspace ''  # ERROR: a comment'' = CHR ''#'' # '' ERROR: a comment''
   \<and> LogService_parse_log_line clock0 ''  # ERROR: a comment'' = None
   \<and> LogMonitor_parse_log_content clock0 [CHR '' '', CHR 0x09, CHR 0x0A] = []
   \<and> LogMonitor_parse_log_content clock0 (''ERROR: a'' @ [CHR 0x0A, CHR '' '', CHR 0x0A] @ ''ERROR: b'')
       = [\<lparr>timestamp = ''2024-01-20T10:30:00'', level = ''ERROR'', logger_name = ''main'',
           message = ''a'', module = [], func = [], line = None,
           raw_line = ''ERROR: a'', pattern_type = ''simple''\<rparr>,
          \<lparr>timestamp = ''2024-01-20T10:30:00'', level = ''ERROR'', logger_name = ''main'',
           message = ''b'', module = [], func = [], line = None,
           raw_line = ''ERROR: b'', pattern_type = ''simple''\<rparr>]
   \<and> \<not> list_all isspace ''ERROR: a'' \<and> \<not> list_all isspace ''ERROR: b''"
proof -
  have a: "list_all isspace [CHR '' '', CHR 0x09, CHR 0x0A]" by (simp add: isspace_def)
  have b: "dropWhile isspace ''  # ERROR: a comment'' = CHR ''#'' # '' ERROR: a comment''"
    by (simp add: isspace_def)
  have c: "LogMonitor_parse_log_content clock0
             (''ERROR: a'' @ [CHR 0x0A, CHR '' '', CHR 0x0A] @ ''ERROR: b'')
       = [\<lparr>timestamp = ''2024-01-20T10:30:00'', level = ''ERROR'', logger_name = ''main'',
           message = ''a'', module = [], func = [], line = None,
           raw_line = ''ERROR: a'', pattern_type = ''simple''\<rparr>,
          \<lparr>timestamp = ''2024-01-20T10:30:00'', level = ''ERROR'', logger_name = ''main'',
           message = ''b'', module = [], func = [], line = None,
           raw_line = ''ERROR: b'', pattern_type = ''simple''\<rparr>]"
    by (simp add: monitor_eval re_eval dt_eval clock0_def)
  from C7_blank_and_comment_lines_filtered
         [where raw = "[CHR '' '', CHR 0x09, CHR 0x0A]" and now = clock0
            and blank = "[CHR '' '', CHR 0x09, CHR 0x0A]"
            and content = "''ERROR: a'' @ [CHR 0x0A, CHR '' '', CHR 0x0A] @ ''ERROR: b''"]
       C7_blank_and_comment_lines_filtered
         [where raw = "''  # ERROR: a comment''" and rest = "'' ERROR: a comment''"
            and now = clock0]
       a b c
  show ?thesis by (simp add: isspace_def)
qed

text \<open>
  C7 as stated, read of \<^verbatim>\<open>LogMonitor\<close>, fails for comment lines: \<^verbatim>\<open>_parse_log_content\<close>
  tests for blank lines only and \<^verbatim>\<open>_parse_log_line\<close> has a record for every line, so
  a comment line becomes a best-effort entry.
\<close>

theorem C7_counterexample:
  "LogMonitor_parse_log_line clock0 ''# ERROR: a comment'' \<noteq> None
   \<and> LogMonitor_parse_log_content clock0 ''# ERROR: a comment''
     = [\<lparr>timestamp = ''2024-01-20T10:30:00'', level = ''INFO'', logger_name = ''unknown'',
         message = ''# ERROR: a comment'', module = [], func = [], line = None,
         raw_line = ''# ERROR: a comment'', pattern_type = ''unknown''\<rparr>]"
  by (simp add: monitor_eval re_eval dt_eval clock0_def)

end
